theory Spec2Isabelle
  imports Complex_Main
begin

section \<open>JavaScript numbers and values\<close>

text \<open>
  A JavaScript number is a double. The finite doubles are idealised as reals (no rounding,
  no overflow, one zero); the three special values are kept, since the code's comparisons
  and truthiness tests treat them differently from the finite values.
\<close>

datatype jsnum = NaN | NegInf | Fin real | PosInf

fun js_neg :: "jsnum \<Rightarrow> jsnum" where
  "js_neg NaN = NaN"
| "js_neg NegInf = PosInf"
| "js_neg (Fin x) = Fin (- x)"
| "js_neg PosInf = NegInf"

fun js_add :: "jsnum \<Rightarrow> jsnum \<Rightarrow> jsnum" where
  "js_add NaN b = NaN"
| "js_add a NaN = NaN"
| "js_add (Fin x) (Fin y) = Fin (x + y)"
| "js_add (Fin x) b = b"
| "js_add a (Fin y) = a"
| "js_add PosInf PosInf = PosInf"
| "js_add NegInf NegInf = NegInf"
| "js_add PosInf NegInf = NaN"
| "js_add NegInf PosInf = NaN"

definition js_sub :: "jsnum \<Rightarrow> jsnum \<Rightarrow> jsnum" where
  "js_sub a b = js_add a (js_neg b)"

text \<open>The sign of a number that is not NaN: \<open>-1\<close>, \<open>0\<close> or \<open>1\<close>.\<close>

fun js_sign :: "jsnum \<Rightarrow> int" where
  "js_sign NaN = 0"
| "js_sign NegInf = - 1"
| "js_sign (Fin x) = (if x < 0 then - 1 else if x = 0 then 0 else 1)"
| "js_sign PosInf = 1"

definition inf_of_sign :: "int \<Rightarrow> jsnum" where
  "inf_of_sign s = (if s = 0 then NaN else if s < 0 then NegInf else PosInf)"

fun js_mul :: "jsnum \<Rightarrow> jsnum \<Rightarrow> jsnum" where
  "js_mul NaN b = NaN"
| "js_mul a NaN = NaN"
| "js_mul (Fin x) (Fin y) = Fin (x * y)"
| "js_mul a b = inf_of_sign (js_sign a * js_sign b)"

fun js_div :: "jsnum \<Rightarrow> jsnum \<Rightarrow> jsnum" where
  "js_div NaN b = NaN"
| "js_div a NaN = NaN"
| "js_div (Fin x) (Fin y) = (if y = 0 then inf_of_sign (js_sign (Fin x)) else Fin (x / y))"
| "js_div (Fin x) b = Fin 0"
| "js_div a (Fin y) = inf_of_sign (js_sign a * (if y < 0 then - 1 else 1))"
| "js_div a b = NaN"

fun js_abs :: "jsnum \<Rightarrow> jsnum" where
  "js_abs NaN = NaN"
| "js_abs NegInf = PosInf"
| "js_abs (Fin x) = Fin \<bar>x\<bar>"
| "js_abs PosInf = PosInf"

text \<open>\<open>a < b\<close>; every comparison with NaN is false.\<close>

fun js_lt :: "jsnum \<Rightarrow> jsnum \<Rightarrow> bool" where
  "js_lt NaN b = False"
| "js_lt a NaN = False"
| "js_lt (Fin x) (Fin y) = (x < y)"
| "js_lt NegInf NegInf = False"
| "js_lt NegInf b = True"
| "js_lt a PosInf = (a \<noteq> PosInf)"
| "js_lt a b = False"

text \<open>\<open>a <= b\<close>.\<close>

definition js_le :: "jsnum \<Rightarrow> jsnum \<Rightarrow> bool" where
  "js_le a b = (a \<noteq> NaN \<and> b \<noteq> NaN \<and> \<not> js_lt b a)"



text \<open>A number is truthy unless it is zero or NaN.\<close>

definition truthy :: "jsnum \<Rightarrow> bool" where
  "truthy n = (n \<noteq> NaN \<and> n \<noteq> Fin 0)"

text \<open>
  A field of an incoming point is any JavaScript value. All the code does with it is test
  its type (\<open>_.isNumber\<close>) and use it in arithmetic, which coerces it to a number: a value
  that is not of type number is represented by the number it coerces to
  (\<open>undefined\<close> is \<open>NotNumber NaN\<close>, the string \<open>"5"\<close> is \<open>NotNumber (Fin 5)\<close>).
\<close>

datatype jsval = Number jsnum | NotNumber jsnum

text \<open>
  Underscore's \<open>_.isNumber\<close> tests the type tag only: it is true of NaN and of the
  infinities.
\<close>

fun isNumber :: "jsval \<Rightarrow> bool" where
  "isNumber (Number n) = True"
| "isNumber (NotNumber n) = False"

fun toNumber :: "jsval \<Rightarrow> jsnum" where
  "toNumber (Number n) = n"
| "toNumber (NotNumber n) = n"

section \<open>Points\<close>

text \<open>The object handed to \<open>add\<close>: its three fields are arbitrary values.\<close>

record raw_point =
  r_ts :: jsval
  r_lat :: jsval
  r_lon :: jsval

text \<open>
  The \<open>point\<close> argument itself: \<open>null\<close> or \<open>undefined\<close>, another falsy primitive, or an
  object (a truthy primitive behaves as an object whose three fields are \<open>undefined\<close>).
\<close>

datatype point_arg = PNull | PFalsy | PObj raw_point

text \<open>A stored point: \<open>add\<close> stores an object only after all three fields passed \<open>_.isNumber\<close>.\<close>

record point =
  ts :: jsnum
  lat :: jsnum
  lon :: jsnum

type_synonym latlng = "jsnum \<times> jsnum"

datatype error = InvalidPoint | OutOfOrderPoint | TypeError

text \<open>A call either returns or throws; in both cases it leaves a state behind.\<close>

datatype 's outcome = Returned 's | Thrown error 's


section \<open>MapObject\<close>

text \<open>
  The attributes \<open>points\<close>, \<open>showObject\<close>, \<open>showRoute\<close> and \<open>modelId\<close> of the Backbone model
  and the two handles \<open>marker\<close> and \<open>polyline\<close> on the map: the marker is the position it is
  drawn at, the polyline the path it is drawn along. Title and colour only style the drawing.
\<close>

record mapobject =
  modelId :: string
  points :: "point list"
  showObject :: bool
  showRoute :: bool
  marker :: "latlng option"
  polyline :: "latlng list option"

definition inTimeoutLimit :: "jsnum \<Rightarrow> point \<Rightarrow> bool" where
  "inTimeoutLimit currentTime p = js_le (js_abs (js_sub currentTime (ts p))) (Fin 300)"

definition clearPos :: "mapobject \<Rightarrow> mapobject" where
  "clearPos m = m\<lparr>marker := None\<rparr>"

text \<open>
  \<open>showRoute(value)\<close> on the object itself (the listeners of \<open>change:showRoute\<close> belong to
  the dictionary). The new polyline is drawn along the reversed list of the points.
\<close>

definition showRoute_set :: "bool \<Rightarrow> mapobject \<Rightarrow> mapobject" where
  "showRoute_set v m =
     (let m1 = m\<lparr>showRoute := v\<rparr> in
      if v then
        (case polyline m1 of
           None \<Rightarrow> m1\<lparr>polyline := Some (rev (map (\<lambda>p. (lat p, lon p)) (points m1)))\<rparr>
         | Some path \<Rightarrow> m1)
      else m1\<lparr>polyline := None\<rparr>)"

definition add :: "point_arg \<Rightarrow> mapobject \<Rightarrow> mapobject outcome" where
  "add arg m =
     (case arg of
        PObj rp \<Rightarrow>
          (if \<not> isNumber (r_ts rp) \<or> \<not> isNumber (r_lat rp) \<or> \<not> isNumber (r_lon rp)
           then Thrown InvalidPoint m
           else
             let pt = \<lparr>ts = toNumber (r_ts rp), lat = toNumber (r_lat rp),
                       lon = toNumber (r_lon rp)\<rparr>
             in if points m \<noteq> [] \<and> js_lt (ts pt) (ts (last (points m)))
                then Thrown OutOfOrderPoint m
                else
                  let m1 = m\<lparr>points := points m @ [pt]\<rparr>
                  in Returned
                       (if showRoute m1 then
                          (case polyline m1 of
                             Some path \<Rightarrow> m1\<lparr>polyline := Some (path @ [(lat pt, lon pt)])\<rparr>
                           | None \<Rightarrow> showRoute_set True m1)
                        else m1))
      | _ \<Rightarrow> Thrown InvalidPoint m)"

text \<open>\<open>removeAt(0)\<close> on the path of the polyline, when there is one.\<close>

definition removeAt0 :: "latlng list option \<Rightarrow> latlng list option" where
  "removeAt0 pl = map_option (drop 1) pl"

text \<open>
  The eviction loop of \<open>calculatePos\<close>. Its state is the variable \<open>firstPoint\<close>, the array
  and the polyline. \<open>points.shift()\<close> removes the first element of the array and returns
  the element it removed (\<open>undefined\<close> on an empty array), and that is what the loop assigns
  to \<open>firstPoint\<close>.
\<close>

function evict :: "jsnum \<Rightarrow> jsnum \<Rightarrow> point option \<Rightarrow> point list \<Rightarrow> latlng list option
    \<Rightarrow> point list \<times> latlng list option" where
  "evict currentTime deadline None pts pl = (pts, pl)"
| "evict currentTime deadline (Some firstPoint) pts pl =
     (if js_lt (ts firstPoint) deadline then
        (if (case pts of [p] \<Rightarrow> inTimeoutLimit currentTime p | _ \<Rightarrow> False) then (pts, pl)
         else
           (case pts of
              [] \<Rightarrow> evict currentTime deadline None [] (removeAt0 pl)
            | p # rest \<Rightarrow> evict currentTime deadline (Some p) rest (removeAt0 pl)))
      else (pts, pl))"
  by pat_completeness auto
termination
  by (relation "measure (\<lambda>(c, d, fp, pts, pl). 2 * length pts + (if fp = None then 0 else 1))")
    auto

text \<open>\<open>_.first\<close>: the first element, or \<open>undefined\<close>.\<close>

fun first :: "'a list \<Rightarrow> 'a option" where
  "first [] = None"
| "first (x # xs) = Some x"

text \<open>The part of \<open>calculatePos\<close> under \<open>if (timeWindow)\<close>.\<close>

definition evictOld :: "jsnum \<Rightarrow> jsnum option \<Rightarrow> mapobject \<Rightarrow> mapobject" where
  "evictOld currentTime timeWindow m =
     (case timeWindow of
        None \<Rightarrow> m
      | Some tw \<Rightarrow>
          if truthy tw then
            (let deadline = js_sub currentTime tw;
                 r = evict currentTime deadline (first (points m)) (points m) (polyline m)
             in m\<lparr>points := fst r, polyline := snd r\<rparr>)
          else m)"

text \<open>
  The search loop of the historical branch: the index of the first point whose \<open>ts\<close> is
  greater than \<open>currentTime\<close>, or the length of the array.
\<close>

fun nextPointIndex :: "jsnum \<Rightarrow> point list \<Rightarrow> nat" where
  "nextPointIndex currentTime [] = 0"
| "nextPointIndex currentTime (p # ps) =
     (if js_lt currentTime (ts p) then 0 else Suc (nextPointIndex currentTime ps))"

definition interpolate :: "jsnum \<Rightarrow> point \<Rightarrow> point \<Rightarrow> latlng" where
  "interpolate currentTime currentPoint nextPoint =
     (let p = js_div (js_sub currentTime (ts currentPoint))
                     (js_sub (ts nextPoint) (ts currentPoint))
      in (js_add (lat currentPoint) (js_mul (js_sub (lat nextPoint) (lat currentPoint)) p),
          js_add (lon currentPoint) (js_mul (js_sub (lon nextPoint) (lon currentPoint)) p)))"

text \<open>
  The variables \<open>lat\<close> and \<open>lon\<close> after the two branches: both assigned, or both
  \<open>undefined\<close> (\<open>None\<close>).
\<close>

definition position :: "jsnum \<Rightarrow> bool \<Rightarrow> point list \<Rightarrow> latlng option" where
  "position currentTime realtime pts =
     (if realtime then
        (if pts = [] then None else Some (lat (last pts), lon (last pts)))
      else
        (let i = nextPointIndex currentTime pts in
         if i \<noteq> 0 \<and> i < length pts
         then Some (interpolate currentTime (pts ! (i - 1)) (pts ! i))
         else None))"

text \<open>
  The end of \<open>calculatePos\<close>: under \<open>if (lat && lon)\<close> the marker is moved or created,
  otherwise it is removed.
\<close>

definition render :: "latlng option \<Rightarrow> mapobject \<Rightarrow> mapobject" where
  "render pos m =
     (case pos of
        Some (la, lo) \<Rightarrow> if truthy la \<and> truthy lo then m\<lparr>marker := Some (la, lo)\<rparr> else clearPos m
      | None \<Rightarrow> clearPos m)"

definition calculatePos :: "jsnum \<Rightarrow> bool \<Rightarrow> jsnum option \<Rightarrow> mapobject \<Rightarrow> mapobject" where
  "calculatePos currentTime realtime timeWindow m =
     (if showObject m then
        (let m1 = evictOld currentTime timeWindow m
         in render (position currentTime realtime (points m1)) m1)
      else clearPos m)"

definition isEmpty :: "mapobject \<Rightarrow> bool" where
  "isEmpty m = (points m = [])"

text \<open>A new \<open>MapObject\<close> as the dictionary constructs it.\<close>

definition newMapObject :: "string \<Rightarrow> bool \<Rightarrow> bool \<Rightarrow> mapobject" where
  "newMapObject ident so sr =
     \<lparr>modelId = ident, points = [], showObject = so, showRoute = sr,
      marker = None, polyline = None\<rparr>"

section \<open>MapObjectsDictionary\<close>

text \<open>
  The dictionary keeps its models under their generated ids, in the order of insertion
  (the order in which \<open>each\<close> visits them), the two attributes \<open>showAllObjects\<close> and
  \<open>showAllRoutes\<close>, and the events it has triggered so far.
\<close>

datatype event = Add string | Remove string | Reset

record dictionary =
  models :: "(string \<times> mapobject) list"
  showAllObjects :: bool
  showAllRoutes :: bool
  triggered :: "event list"

text \<open>\<open>this.models[id] = model\<close> for an id that is already a property.\<close>

definition putModel :: "string \<Rightarrow> mapobject \<Rightarrow> (string \<times> mapobject) list
    \<Rightarrow> (string \<times> mapobject) list" where
  "putModel ident m ms = map (\<lambda>(k, v). if k = ident then (k, m) else (k, v)) ms"

text \<open>
  \<open>addData\<close>; \<open>stringify\<close> stands for \<open>JSON.stringify\<close>. A model that is not there yet is
  created, stored and announced by the event \<open>add\<close> before \<open>model.add(point)\<close> runs.
\<close>

definition addData :: "('o \<Rightarrow> string) \<Rightarrow> 'o \<Rightarrow> point_arg \<Rightarrow> dictionary
    \<Rightarrow> dictionary outcome" where
  "addData stringify obj pt d =
     (let ident = stringify obj;
          model = (case map_of (models d) ident of
                     Some m \<Rightarrow> m
                   | None \<Rightarrow> newMapObject ident (showAllObjects d) (showAllRoutes d));
          d1 = (case map_of (models d) ident of
                  Some m \<Rightarrow> d
                | None \<Rightarrow> d\<lparr>models := models d @ [(ident, model)],
                            triggered := triggered d @ [Add ident]\<rparr>)
      in case add pt model of
           Returned model' \<Rightarrow> Returned (d1\<lparr>models := putModel ident model' (models d1)\<rparr>)
         | Thrown e model' \<Rightarrow> Thrown e (d1\<lparr>models := putModel ident model' (models d1)\<rparr>))"

text \<open>
  \<open>clearEmptyObjects\<close>: every empty model is removed and announced by the event \<open>remove\<close>
  (what is done to the removed model itself no longer shows in the dictionary).
\<close>

definition clearEmptyObjects :: "dictionary \<Rightarrow> dictionary" where
  "clearEmptyObjects d =
     d\<lparr>models := filter (\<lambda>(k, m). \<not> isEmpty m) (models d),
       triggered := triggered d @ map (\<lambda>(k, m). Remove k) (filter (\<lambda>(k, m). isEmpty m) (models d))\<rparr>"

section \<open>MapObjectsViewModel\<close>

text \<open>
  The attributes of the view model (an attribute that is not set is \<open>None\<close>; \<open>playInterval\<close>
  is set while the interval timer runs) and its dictionary.
\<close>

record viewmodel =
  graduality :: jsnum
  speed :: jsnum
  realtime :: bool
  timeWindow :: "jsnum option"
  currentTime :: "jsnum option"
  beginTime :: "jsnum option"
  endTime :: "jsnum option"
  playInterval :: bool
  collection :: dictionary


text \<open>In arithmetic and comparisons \<open>undefined\<close> counts as NaN and \<open>null\<close> as zero.\<close>

fun undefToNumber :: "jsnum option \<Rightarrow> jsnum" where
  "undefToNumber None = NaN"
| "undefToNumber (Some n) = n"


fun truthyOpt :: "jsnum option \<Rightarrow> bool" where
  "truthyOpt None = False"
| "truthyOpt (Some n) = truthy n"

text \<open>
  \<open>model.showObject(value)\<close> for the model stored under \<open>ident\<close>. When the attribute changes,
  the listeners of \<open>change:showObject\<close> run in the order they were bound: the one of
  \<open>MapObject.initialize\<close> (clear the position of a hidden object), the one of the view model
  (recalculate the position of an object that is shown), the one of the dictionary
  (\<open>showAllObjects(false, true)\<close>, which being silent only sets the attribute).
\<close>

definition model_showObject_set :: "string \<Rightarrow> bool \<Rightarrow> viewmodel \<Rightarrow> viewmodel" where
  "model_showObject_set ident v vm =
     (case map_of (models (collection vm)) ident of
        None \<Rightarrow> vm
      | Some m \<Rightarrow>
          let changed = (showObject m \<noteq> v);
              m1 = m\<lparr>showObject := v\<rparr>;
              m2 = (if changed \<and> \<not> v then clearPos m1 else m1);
              m3 = (if changed \<and> v
                    then calculatePos (undefToNumber (currentTime vm)) (realtime vm)
                           (timeWindow vm) m2
                    else m2);
              d = collection vm;
              d1 = (if changed \<and> showAllObjects d \<and> \<not> v then d\<lparr>showAllObjects := False\<rparr> else d);
              m4 = (if \<not> v then clearPos m3 else m3)
          in vm\<lparr>collection := d1\<lparr>models := putModel ident m4 (models d1)\<rparr>\<rparr>)"

text \<open>\<open>showAllObjects(value, silent)\<close> of the dictionary.\<close>

definition showAllObjects_set :: "bool \<Rightarrow> bool \<Rightarrow> viewmodel \<Rightarrow> viewmodel" where
  "showAllObjects_set v silent vm =
     (let d = collection vm;
          oldValue = showAllObjects d;
          vm1 = vm\<lparr>collection := d\<lparr>showAllObjects := v\<rparr>\<rparr>
      in if oldValue \<noteq> v \<and> \<not> silent
         then fold (\<lambda>ident. model_showObject_set ident v) (map fst (models d)) vm1
         else vm1)"

text \<open>
  \<open>model.showRoute(value)\<close> for the model stored under \<open>ident\<close>, with the dictionary's
  listener of \<open>change:showRoute\<close>, and \<open>showAllRoutes(value, silent)\<close>.
\<close>

definition model_showRoute_set :: "string \<Rightarrow> bool \<Rightarrow> viewmodel \<Rightarrow> viewmodel" where
  "model_showRoute_set ident v vm =
     (case map_of (models (collection vm)) ident of
        None \<Rightarrow> vm
      | Some m \<Rightarrow>
          let changed = (showRoute m \<noteq> v);
              d = collection vm;
              d1 = (if changed \<and> showAllRoutes d \<and> \<not> v then d\<lparr>showAllRoutes := False\<rparr> else d)
          in vm\<lparr>collection := d1\<lparr>models := putModel ident (showRoute_set v m) (models d1)\<rparr>\<rparr>)"

definition showAllRoutes_set :: "bool \<Rightarrow> bool \<Rightarrow> viewmodel \<Rightarrow> viewmodel" where
  "showAllRoutes_set v silent vm =
     (let d = collection vm;
          oldValue = showAllRoutes d;
          vm1 = vm\<lparr>collection := d\<lparr>showAllRoutes := v\<rparr>\<rparr>
      in if oldValue \<noteq> v \<and> \<not> silent
         then fold (\<lambda>ident. model_showRoute_set ident v) (map fst (models d)) vm1
         else vm1)"

text \<open>
  \<open>currentTime(value)\<close>: every object that is shown recalculates its position, then the
  empty objects are cleared.
\<close>

definition currentTime_set :: "jsnum \<Rightarrow> viewmodel \<Rightarrow> viewmodel" where
  "currentTime_set v vm =
     (let vm1 = vm\<lparr>currentTime := Some v\<rparr>;
          d = collection vm1;
          ms = map (\<lambda>(k, m). (k, if showObject m
                                  then calculatePos v (realtime vm1) (timeWindow vm1) m
                                  else m)) (models d)
      in vm1\<lparr>collection := clearEmptyObjects (d\<lparr>models := ms\<rparr>)\<rparr>)"

definition pause :: "viewmodel \<Rightarrow> viewmodel" where
  "pause vm = (if playInterval vm then vm\<lparr>playInterval := False\<rparr> else vm)"

definition realtime_set :: "bool \<Rightarrow> viewmodel \<Rightarrow> viewmodel" where
  "realtime_set v vm = (let vm1 = (if v then pause vm else vm) in vm1\<lparr>realtime := v\<rparr>)"











text \<open>
  The dictionary and the view model as they are constructed: the defaults of the two
  Backbone models, no models and no times yet.
\<close>

definition newDictionary :: dictionary where
  "newDictionary = \<lparr>models = [], showAllObjects = True, showAllRoutes = True, triggered = []\<rparr>"

definition newViewModel :: viewmodel where
  "newViewModel =
     \<lparr>graduality = Fin 2, speed = Fin 10, realtime = True, timeWindow = Some (Fin 1800),
      currentTime = None, beginTime = None, endTime = None, playInterval = False,
      collection = newDictionary\<rparr>"

section \<open>Properties\<close>



text \<open>The argument is an object whose three fields are of type number.\<close>

definition wellTyped :: "point_arg \<Rightarrow> bool" where
  "wellTyped arg =
     (case arg of
        PObj rp \<Rightarrow> isNumber (r_ts rp) \<and> isNumber (r_lat rp) \<and> isNumber (r_lon rp)
      | _ \<Rightarrow> False)"


definition stored :: "raw_point \<Rightarrow> point" where
  "stored rp = \<lparr>ts = toNumber (r_ts rp), lat = toNumber (r_lat rp), lon = toNumber (r_lon rp)\<rparr>"

text \<open>Shorthands for the examples: a finite point, an object with finite fields, an entity.\<close>

definition pt :: "real \<Rightarrow> real \<Rightarrow> real \<Rightarrow> point" where
  "pt t la lo = \<lparr>ts = Fin t, lat = Fin la, lon = Fin lo\<rparr>"

definition obj :: "real \<Rightarrow> real \<Rightarrow> real \<Rightarrow> point_arg" where
  "obj t la lo = PObj \<lparr>r_ts = Number (Fin t), r_lat = Number (Fin la), r_lon = Number (Fin lo)\<rparr>"

definition entity :: "string \<Rightarrow> bool \<Rightarrow> point list \<Rightarrow> mapobject" where
  "entity ident shown ps =
     \<lparr>modelId = ident, points = ps, showObject = shown, showRoute = False,
      marker = None, polyline = None\<rparr>"

text \<open>A view model with three entities, all shown, and one in historical mode from 0 to 10.\<close>

definition threeShown :: viewmodel where
  "threeShown =
     newViewModel\<lparr>collection := newDictionary\<lparr>models :=
       [(''a'', entity ''a'' True [pt 1 1 1]),
        (''b'', entity ''b'' True [pt 1 2 2]),
        (''c'', entity ''c'' True [pt 1 3 3])]\<rparr>\<rparr>"

definition shownFlags :: "viewmodel \<Rightarrow> (string \<times> bool) list" where
  "shownFlags vm = map (\<lambda>(k, m). (k, showObject m)) (models (collection vm))"


section \<open>Facts about the numbers\<close>

lemma js_lt_irrefl [simp]: "\<not> js_lt a a"
  by (cases a) auto


section \<open>Adding points\<close>

lemma add_thrown_state: "add arg m = Thrown e m' \<Longrightarrow> m' = m"
  by (auto simp: add_def Let_def split: point_arg.splits if_splits)


lemma add_invalid_iff: "(\<exists>m'. add arg m = Thrown InvalidPoint m') \<longleftrightarrow> \<not> wellTyped arg"
  by (auto simp: add_def Let_def wellTyped_def split: point_arg.splits if_splits)

lemma add_in_order:
  "wellTyped (PObj rp) \<Longrightarrow>
   \<not> (points m \<noteq> [] \<and> js_lt (toNumber (r_ts rp)) (ts (last (points m)))) \<Longrightarrow>
     \<exists>m'. add (PObj rp) m = Returned m' \<and> points m' = points m @ [stored rp]"
  by (auto simp: add_def Let_def wellTyped_def stored_def showRoute_set_def split: option.splits)






text \<open>
  C6, as the code has it: \<open>add\<close> throws InvalidPoint exactly when the argument is falsy or one
  of \<open>ts\<close>, \<open>lat\<close>, \<open>lon\<close> is not of type number. NaN and the infinities are of type number:
  they pass the check. A call that throws leaves the object as it was, and a point that
  passes the check and is not out of order is appended.
\<close>

theorem add_throws_InvalidPoint_iff_not_wellTyped:
  "((\<exists>m'. add arg m = Thrown InvalidPoint m') \<longleftrightarrow> \<not> wellTyped arg) \<and>
   (\<forall>e m'. add arg m = Thrown e m' \<longrightarrow> m' = m) \<and>
   (\<forall>rp. arg = PObj rp \<and> wellTyped arg \<and>
          \<not> (points m \<noteq> [] \<and> js_lt (toNumber (r_ts rp)) (ts (last (points m)))) \<longrightarrow>
      (\<exists>m'. add arg m = Returned m' \<and> points m' = points m @ [stored rp]))"
  using add_invalid_iff[of arg m] add_thrown_state[of arg m] add_in_order[of _ m]
  by blast

theorem add_throws_InvalidPoint_iff_not_wellTyped_witness:
  "\<not> wellTyped (PObj \<lparr>r_ts = Number (Fin 1), r_lat = NotNumber NaN, r_lon = Number (Fin 2)\<rparr>) \<and>
   (\<exists>m'. add (PObj \<lparr>r_ts = Number (Fin 1), r_lat = NotNumber NaN, r_lon = Number (Fin 2)\<rparr>)
            (entity ''a'' True [pt 0 0 0]) = Thrown InvalidPoint m')"
proof -
  have w: "\<not> wellTyped (PObj \<lparr>r_ts = Number (Fin 1), r_lat = NotNumber NaN, r_lon = Number (Fin 2)\<rparr>)"
    by (simp add: wellTyped_def)
  show ?thesis
    using w add_throws_InvalidPoint_iff_not_wellTyped
      [of "PObj \<lparr>r_ts = Number (Fin 1), r_lat = NotNumber NaN, r_lon = Number (Fin 2)\<rparr>"
          "entity ''a'' True [pt 0 0 0]"]
    by blast
qed

text \<open>
  C6 as the claim states it fails: a point whose \<open>ts\<close> is NaN and whose \<open>lat\<close> is Infinity is
  not rejected, it is appended.
\<close>

theorem add_accepts_NaN_and_Infinity:
  "add (PObj \<lparr>r_ts = Number NaN, r_lat = Number PosInf, r_lon = Number (Fin 2)\<rparr>)
       (entity ''a'' True [pt 0 0 0])
   = Returned (entity ''a'' True [pt 0 0 0, \<lparr>ts = NaN, lat = PosInf, lon = Fin 2\<rparr>])"
  by (simp add: add_def entity_def pt_def)




section \<open>Eviction\<close>

text \<open>
  C1 fails on the code. With the points at 0, 995 and 1000, the time 1000 and the window
  10, the deadline is 990: the point at 995 is not older than the deadline, and
  \<open>calculatePos\<close> removes it together with the point at 0. The loop tests the point that
  \<open>shift\<close> has just removed, not the new first point, so it removes one point more than
  the old ones.
\<close>

theorem calculatePos_evicts_point_inside_window:
  "points (calculatePos (Fin 1000) True (Some (Fin 10))
             (entity ''a'' True [pt 0 1 1, pt 995 2 2, pt 1000 3 3])) = [pt 1000 3 3] \<and>
   js_le (js_sub (Fin 1000) (Fin 10)) (ts (pt 995 2 2))"
  by (simp add: calculatePos_def entity_def pt_def evictOld_def truthy_def js_sub_def
      js_le_def inTimeoutLimit_def render_def position_def removeAt0_def)

section \<open>Positions\<close>



lemma evictOld_None [simp]: "evictOld c None m = m"
  by (simp add: evictOld_def)

lemma evictOld_showObject [simp]: "showObject (evictOld c tw m) = showObject m"
  by (simp add: evictOld_def Let_def split: option.splits)

lemma marker_render_None [simp]: "marker (render None m) = None"
  by (simp add: render_def clearPos_def)












lemma marker_nonzero:
  "marker (calculatePos c rt tw m) = Some (la, lo) \<Longrightarrow> truthy la \<and> truthy lo"
  by (auto simp: calculatePos_def render_def clearPos_def Let_def split: if_splits option.splits prod.splits)

lemma zero_cleared:
  "showObject m \<Longrightarrow> position c rt (points (evictOld c tw m)) = Some (la, lo) \<Longrightarrow> la = Fin 0 \<or> lo = Fin 0 \<Longrightarrow>
    marker (calculatePos c rt tw m) = None"
  by (auto simp: calculatePos_def render_def clearPos_def Let_def truthy_def)







text \<open>
  C10: \<open>calculatePos\<close> leaves a marker only at coordinates that are both nonzero; when the
  position it computed for an entity that is shown has the latitude or the longitude 0,
  the marker is removed instead of being placed there.
\<close>

theorem calculatePos_marker_only_at_nonzero:
  "(marker (calculatePos c rt tw m) = Some (la, lo) \<longrightarrow> la \<noteq> Fin 0 \<and> lo \<noteq> Fin 0) \<and>
   (showObject m \<and> position c rt (points (evictOld c tw m)) = Some (la', lo') \<and>
    (la' = Fin 0 \<or> lo' = Fin 0) \<longrightarrow>
      marker (calculatePos c rt tw m) = None)"
  using marker_nonzero[of c rt tw m la lo] zero_cleared[of m c rt tw la' lo']
  by (auto simp: truthy_def)

theorem calculatePos_marker_only_at_nonzero_witness:
  "position (Fin 2) True (points (evictOld (Fin 2) None
      ((entity ''a'' True [pt 1 0 20])\<lparr>marker := Some (Fin 3, Fin 4)\<rparr>))) = Some (Fin 0, Fin 20) \<and>
   marker (calculatePos (Fin 2) True None
      ((entity ''a'' True [pt 1 0 20])\<lparr>marker := Some (Fin 3, Fin 4)\<rparr>)) = None"
proof -
  let ?m = "(entity ''a'' True [pt 1 0 20])\<lparr>marker := Some (Fin 3, Fin 4)\<rparr>"
  have h: "showObject ?m \<and> position (Fin 2) True (points (evictOld (Fin 2) None ?m))
      = Some (Fin 0, Fin 20) \<and> (Fin 0 = Fin 0 \<or> Fin 20 = Fin 0)"
    by (simp add: entity_def pt_def position_def)
  then show ?thesis
    using calculatePos_marker_only_at_nonzero
      [where m = ?m and c = "Fin 2" and rt = True and tw = None and la' = "Fin 0" and lo' = "Fin 20"]
    by blast
qed

section \<open>The dictionary\<close>

lemma putModel_keys [simp]: "map fst (putModel k m ms) = map fst ms"
  by (induction ms) (auto simp: putModel_def)

lemma map_of_putModel:
  "map_of (putModel k m ms) k' = (if k' = k then map_option (\<lambda>_. m) (map_of ms k) else map_of ms k')"
  by (induction ms) (auto simp: putModel_def)

lemma putModel_absent: "map_of ms k = None \<Longrightarrow> putModel k m ms = ms"
  by (induction ms) (auto simp: putModel_def split: if_splits)

lemma putModel_appended:
  "map_of ms k = None \<Longrightarrow> putModel k m' (ms @ [(k, m)]) = ms @ [(k, m')]"
  by (simp add: putModel_def putModel_absent[unfolded putModel_def])

lemma putModel_mem:
  "(k', m') \<in> set (putModel k m ms) \<Longrightarrow> (k' = k \<and> m' = m) \<or> (k' \<noteq> k \<and> (k', m') \<in> set ms)"
  by (auto simp: putModel_def split: if_splits)

lemma add_not_wellTyped: "\<not> wellTyped p \<Longrightarrow> add p m = Thrown InvalidPoint m"
  by (auto simp: add_def wellTyped_def split: point_arg.splits)

lemma add_new_wellTyped:
  "wellTyped p \<Longrightarrow> \<exists>m'. add p (newMapObject i so sr) = Returned m'"
  by (auto simp: add_def wellTyped_def newMapObject_def Let_def split: point_arg.splits)

lemma addData_unseen:
  assumes u: "map_of (models d) (stringify x) = None"
  shows "(\<not> wellTyped p \<longrightarrow>
           addData stringify x p d =
             Thrown InvalidPoint
               (d\<lparr>models := models d @ [(stringify x, newMapObject (stringify x) (showAllObjects d) (showAllRoutes d))],
                  triggered := triggered d @ [Add (stringify x)]\<rparr>)) \<and>
         (wellTyped p \<longrightarrow> (\<exists>d'. addData stringify x p d = Returned d'))"
proof (cases "wellTyped p")
  case True
  from add_new_wellTyped[OF True] obtain m' where
    "add p (newMapObject (stringify x) (showAllObjects d) (showAllRoutes d)) = Returned m'"
    by blast
  then show ?thesis using u True
    by (simp add: addData_def Let_def)
next
  case False
  have "add p (newMapObject (stringify x) (showAllObjects d) (showAllRoutes d))
      = Thrown InvalidPoint (newMapObject (stringify x) (showAllObjects d) (showAllRoutes d))"
    using False by (rule add_not_wellTyped)
  then show ?thesis using u False
    by (simp add: addData_def Let_def putModel_appended)
qed



lemma calculatePos_showObject [simp]: "showObject (calculatePos c rt tw m) = showObject m"
  by (simp add: calculatePos_def render_def clearPos_def evictOld_def Let_def split: option.splits prod.splits)

lemma clearPos_showObject [simp]: "showObject (clearPos m) = showObject m"
  by (simp add: clearPos_def)

lemma hide_one:
  assumes "map_of (models (collection vm)) k = Some m" "showObject m" "showAllObjects (collection vm)"
  shows "collection (model_showObject_set k False vm) =
     (collection vm)\<lparr>showAllObjects := False,
        models := putModel k (clearPos (clearPos (m\<lparr>showObject := False\<rparr>))) (models (collection vm))\<rparr>"
  using assms by (simp add: model_showObject_set_def Let_def)

lemma show_step_keys [simp]:
  "map fst (models (collection (model_showObject_set k v vm))) = map fst (models (collection vm))"
  by (simp add: model_showObject_set_def Let_def split: option.splits)

lemma show_step_flag [simp]:
  "showAllObjects (collection (model_showObject_set k True vm)) = showAllObjects (collection vm)"
  by (simp add: model_showObject_set_def Let_def split: option.splits)

lemma show_step_models:
  assumes "map_of (models (collection vm)) k = Some m"
  shows "\<exists>m4. showObject m4 \<and>
       models (collection (model_showObject_set k True vm)) = putModel k m4 (models (collection vm))"
proof (cases "showObject m")
  case True
  then have "models (collection (model_showObject_set k True vm))
      = putModel k (m\<lparr>showObject := True\<rparr>) (models (collection vm))"
    using assms by (simp add: model_showObject_set_def Let_def)
  moreover have "showObject (m\<lparr>showObject := True\<rparr>)" by simp
  ultimately show ?thesis by blast
next
  case False
  let ?m4 = "calculatePos (undefToNumber (currentTime vm)) (realtime vm) (timeWindow vm)
               (m\<lparr>showObject := True\<rparr>)"
  have "models (collection (model_showObject_set k True vm))
      = putModel k ?m4 (models (collection vm))"
    using assms False by (simp add: model_showObject_set_def Let_def)
  moreover have "showObject ?m4" by simp
  ultimately show ?thesis by blast
qed

lemma show_step_mem:
  assumes "(k', m') \<in> set (models (collection (model_showObject_set k True vm)))"
  shows "(k' = k \<and> showObject m') \<or> (k' \<noteq> k \<and> (k', m') \<in> set (models (collection vm)))"
proof (cases "map_of (models (collection vm)) k")
  case None
  then have "k \<notin> fst ` set (models (collection vm))" by (simp add: map_of_eq_None_iff)
  moreover have "(k', m') \<in> set (models (collection vm))"
    using assms None by (simp add: model_showObject_set_def)
  ultimately show ?thesis by force
next
  case (Some m)
  from show_step_models[OF Some] obtain m4 where
    m4: "showObject m4"
    "models (collection (model_showObject_set k True vm)) = putModel k m4 (models (collection vm))"
    by blast
  have "(k', m') \<in> set (putModel k m4 (models (collection vm)))" using assms m4(2) by simp
  from putModel_mem[OF this] show ?thesis using m4(1) by blast
qed

lemma show_fold_keys [simp]:
  "map fst (models (collection (fold (\<lambda>i. model_showObject_set i v) ks vm))) = map fst (models (collection vm))"
  by (induction ks arbitrary: vm) auto

lemma show_fold_flag [simp]:
  "showAllObjects (collection (fold (\<lambda>i. model_showObject_set i True) ks vm)) = showAllObjects (collection vm)"
  by (induction ks arbitrary: vm) auto

lemma show_fold_mem:
  "(k', m') \<in> set (models (collection (fold (\<lambda>i. model_showObject_set i True) ks vm))) \<Longrightarrow>
     (k' \<in> set ks \<and> showObject m') \<or> (k' \<notin> set ks \<and> (k', m') \<in> set (models (collection vm)))"
proof (induction ks arbitrary: vm)
  case Nil
  then show ?case by simp
next
  case (Cons k ks)
  from Cons.IH[of "model_showObject_set k True vm"] Cons.prems
  have "(k' \<in> set ks \<and> showObject m') \<or>
        (k' \<notin> set ks \<and> (k', m') \<in> set (models (collection (model_showObject_set k True vm))))"
    by simp
  then show ?case using show_step_mem[of k' m' k vm] by auto
qed

lemma show_all:
  assumes "\<not> showAllObjects (collection vm)"
    and "(k', m') \<in> set (models (collection (showAllObjects_set True False vm)))"
  shows "showObject m'"
proof -
  let ?ks = "map fst (models (collection vm))"
  let ?vm1 = "vm\<lparr>collection := (collection vm)\<lparr>showAllObjects := True\<rparr>\<rparr>"
  let ?r = "fold (\<lambda>i. model_showObject_set i True) ?ks ?vm1"
  have r: "showAllObjects_set True False vm = ?r"
    using assms(1) by (simp add: showAllObjects_set_def Let_def)
  have i: "(k', m') \<in> set (models (collection ?r))" using assms(2) r by simp
  have "k' \<in> fst ` set (models (collection ?r))" using i by (metis fst_conv imageI)
  then have "k' \<in> set (map fst (models (collection ?r)))" by (simp only: set_map)
  moreover have "map fst (models (collection ?r)) = map fst (models (collection ?vm1))"
    by (rule show_fold_keys)
  moreover have "models (collection ?vm1) = models (collection vm)" by simp
  ultimately have "k' \<in> set ?ks" by (simp only:)
  then show ?thesis using show_fold_mem[OF i] by blast
qed

lemma show_all_flag:
  "showAllObjects (collection (showAllObjects_set True False vm))"
  by (simp add: showAllObjects_set_def Let_def)

lemma show_all_keys:
  "map fst (models (collection (showAllObjects_set v s vm))) = map fst (models (collection vm))"
  by (simp add: showAllObjects_set_def Let_def)

text \<open>
  C9, as the code has it: \<open>addData\<close> for an identity the dictionary has not seen creates the
  entity, stores it and triggers \<open>add\<close> before it hands the point to \<open>model.add\<close>. When the
  point does not pass the type check, InvalidPoint is propagated and the dictionary is left
  with the new, empty entity under that identity and with the event triggered; everything
  else in the dictionary is as before. A point that passes the check never fails for a new
  entity (there is no last point to be out of order with).
\<close>

theorem addData_unseen_invalid_leaves_empty_entity:
  assumes "map_of (models d) (stringify x) = None"
  shows "(\<not> wellTyped p \<longrightarrow>
           addData stringify x p d =
             Thrown InvalidPoint
               (d\<lparr>models := models d @
                      [(stringify x,
                        newMapObject (stringify x) (showAllObjects d) (showAllRoutes d))],
                  triggered := triggered d @ [Add (stringify x)]\<rparr>)) \<and>
         (wellTyped p \<longrightarrow> (\<exists>d'. addData stringify x p d = Returned d'))"
  using assms by (rule addData_unseen)

theorem addData_unseen_invalid_leaves_empty_entity_witness:
  "addData (\<lambda>s. s) ''car'' PNull (collection threeShown) =
     Thrown InvalidPoint
       ((collection threeShown)\<lparr>models := models (collection threeShown) @
                      [(''car'', newMapObject ''car'' True True)],
                  triggered := [Add ''car'']\<rparr>)"
proof -
  have u: "map_of (models (collection threeShown)) ((\<lambda>s. s) ''car'') = None"
    by (simp add: threeShown_def)
  have w: "\<not> wellTyped PNull" by (simp add: wellTyped_def)
  have f: "showAllObjects (collection threeShown)" "showAllRoutes (collection threeShown)"
    "triggered (collection threeShown) = []"
    by (simp_all add: threeShown_def newDictionary_def)
  show ?thesis
    using addData_unseen_invalid_leaves_empty_entity
      [where stringify = "\<lambda>s. s" and x = "''car''" and d = "collection threeShown"
         and p = PNull]
      u w f
    by simp
qed

text \<open>
  C9 as the claim states it fails: after the failing call the dictionary holds an entity
  for the new identity, and the event \<open>add\<close> has been triggered.
\<close>

theorem addData_invalid_point_creates_entity:
  "addData (\<lambda>s. s) ''car''
     (PObj \<lparr>r_ts = Number (Fin 1), r_lat = NotNumber NaN, r_lon = Number (Fin 2)\<rparr>)
     newDictionary =
   Thrown InvalidPoint
     \<lparr>models = [(''car'', newMapObject ''car'' True True)], showAllObjects = True,
      showAllRoutes = True, triggered = [Add ''car'']\<rparr>"
  by (simp add: addData_def newDictionary_def add_def putModel_def Let_def)

text \<open>
  C7: in a dictionary whose \<open>showAllObjects\<close> is true, hiding one entity that is shown sets
  \<open>showAllObjects\<close> to false and leaves every other entity as it was; \<open>showAllObjects(true)\<close>
  after that sets the flag again and shows every entity.
\<close>

theorem hide_one_then_show_all:
  assumes "map_of (models (collection vm)) k = Some m" and "showObject m"
    and "showAllObjects (collection vm)"
  shows "\<not> showAllObjects (collection (model_showObject_set k False vm)) \<and>
         (\<exists>m1. map_of (models (collection (model_showObject_set k False vm))) k = Some m1 \<and>
               \<not> showObject m1) \<and>
         (\<forall>k'. k' \<noteq> k \<longrightarrow>
            map_of (models (collection (model_showObject_set k False vm))) k' =
            map_of (models (collection vm)) k') \<and>
         showAllObjects
           (collection (showAllObjects_set True False (model_showObject_set k False vm))) \<and>
         map fst (models
           (collection (showAllObjects_set True False (model_showObject_set k False vm)))) =
           map fst (models (collection vm)) \<and>
         (\<forall>(k', m') \<in> set (models
            (collection (showAllObjects_set True False (model_showObject_set k False vm)))).
            showObject m')"
proof -
  let ?h = "model_showObject_set k False vm"
  note c = hide_one[OF assms]
  have 1: "\<not> showAllObjects (collection ?h)" by (simp add: c)
  have 2: "\<exists>m1. map_of (models (collection ?h)) k = Some m1 \<and> \<not> showObject m1"
    using assms(1) by (simp add: c map_of_putModel)
  have 3: "\<forall>k'. k' \<noteq> k \<longrightarrow> map_of (models (collection ?h)) k' = map_of (models (collection vm)) k'"
    by (simp add: c map_of_putModel)
  have 4: "showAllObjects (collection (showAllObjects_set True False ?h))"
    by (rule show_all_flag)
  have 5: "map fst (models (collection (showAllObjects_set True False ?h))) =
           map fst (models (collection vm))"
    by (simp only: show_all_keys show_step_keys)
  have 6: "\<forall>(k', m') \<in> set (models (collection (showAllObjects_set True False ?h))). showObject m'"
    using show_all[OF 1] by blast
  show ?thesis using 1 2 3 4 5 6 by blast
qed

lemma all_shown_flags:
  "map fst ms = ks \<Longrightarrow> \<forall>(k, m) \<in> set ms. showObject m \<Longrightarrow>
     map (\<lambda>(k, m). (k, showObject m)) ms = map (\<lambda>k. (k, True)) ks"
  by (induction ms arbitrary: ks) auto

theorem hide_one_then_show_all_witness:
  "\<not> showAllObjects (collection (model_showObject_set ''b'' False threeShown)) \<and>
   shownFlags (model_showObject_set ''b'' False threeShown) =
     [(''a'', True), (''b'', False), (''c'', True)] \<and>
   showAllObjects
     (collection (showAllObjects_set True False (model_showObject_set ''b'' False threeShown))) \<and>
   shownFlags (showAllObjects_set True False (model_showObject_set ''b'' False threeShown)) =
     [(''a'', True), (''b'', True), (''c'', True)]"
proof -
  let ?h = "model_showObject_set ''b'' False threeShown"
  have a: "map_of (models (collection threeShown)) ''b'' = Some (entity ''b'' True [pt 1 2 2])"
    "showObject (entity ''b'' True [pt 1 2 2])" "showAllObjects (collection threeShown)"
    by (simp_all add: threeShown_def newDictionary_def entity_def newViewModel_def)
  note t = hide_one_then_show_all[OF a]
  have c: "collection ?h =
     (collection threeShown)\<lparr>showAllObjects := False,
        models := putModel ''b''
          (clearPos (clearPos ((entity ''b'' True [pt 1 2 2])\<lparr>showObject := False\<rparr>)))
          (models (collection threeShown))\<rparr>"
    by (rule hide_one[OF a])
  have f1: "shownFlags ?h = [(''a'', True), (''b'', False), (''c'', True)]"
    unfolding shownFlags_def c
    by (simp add: threeShown_def putModel_def entity_def clearPos_def)
  have k: "map fst (models (collection (showAllObjects_set True False ?h))) = [''a'', ''b'', ''c'']"
    using t by (simp add: threeShown_def)
  have v: "\<forall>(k', m') \<in> set (models (collection (showAllObjects_set True False ?h))). showObject m'"
    using t by blast
  have f2: "shownFlags (showAllObjects_set True False ?h) =
     [(''a'', True), (''b'', True), (''c'', True)]"
    unfolding shownFlags_def using all_shown_flags[OF k v] by simp
  show ?thesis using t f1 f2 by blast
qed

section \<open>Incoming batches\<close>


lemma truthyOpt_iff: "truthyOpt ct \<longleftrightarrow> (\<exists>c. ct = Some c \<and> c \<noteq> NaN \<and> c \<noteq> Fin 0)"
  by (cases ct) (auto simp: truthy_def)






section \<open>Playback\<close>

lemma currentTime_set_fields [simp]:
  "currentTime (currentTime_set v vm) = Some v"
  "endTime (currentTime_set v vm) = endTime vm"
  "beginTime (currentTime_set v vm) = beginTime vm"
  "speed (currentTime_set v vm) = speed vm"
  "graduality (currentTime_set v vm) = graduality vm"
  "realtime (currentTime_set v vm) = realtime vm"
  "playInterval (currentTime_set v vm) = playInterval vm"
  by (simp_all add: currentTime_set_def Let_def)







end
